theory Spec2Isabelle
  imports Complex_Main
begin

section \<open>Python values and exceptions\<close>

text \<open>
  The metadata of a meter is an open-ended Python dict read from a data store. Its values
  are modelled by \<open>pyval\<close>: None, integers (a Python bool is the integer 0 or 1, as
  \<^verbatim>\<open>True == 1\<close> holds in Python and both hash alike), strings, lists, dicts (as
  association lists, first binding wins) and measurement objects. Floating-point values
  are left out.
\<close>

text \<open>
  Modelled from the spec: the classes of \<^verbatim>\<open>nilmtk.measurement\<close> are not part of the
  source file. The docstring of the meter lists \<^verbatim>\<open>[Power('active'), Voltage()]\<close> as an
  example measurement list, and \<^verbatim>\<open>available_ac_types\<close> reads the attribute
  \<^verbatim>\<open>ac_type\<close> of a \<^verbatim>\<open>Power\<close> object.
\<close>

datatype measurement = Power (ac_type: string) | Voltage | OtherMeasurement string

datatype pyval =
    VNone
  | VInt int
  | VStr string
  | VList "pyval list"
  | VDict "(pyval \<times> pyval) list"
  | VMeas measurement

text \<open>
  Exceptions are values. \<open>NoSuchObject\<close> is not a Python exception: it is what the model
  answers when a method is called at an address that holds no meter, which Python cannot do.
\<close>

datatype py_error =
    ValueError string
  | KeyError
  | TypeError
  | AssertionError
  | RuntimeError string
  | ZeroDivisionError
  | AttributeError
  | NoSuchObject

text \<open>The class of an exception: what an \<^verbatim>\<open>except\<close> clause matches on.\<close>

datatype exc_class =
  CValueError | CKeyError | CTypeError | CAssertionError | CRuntimeError
  | CZeroDivisionError | CAttributeError | CNoSuchObject

fun class_of :: "py_error \<Rightarrow> exc_class" where
  "class_of (ValueError _) = CValueError"
| "class_of KeyError = CKeyError"
| "class_of TypeError = CTypeError"
| "class_of AssertionError = CAssertionError"
| "class_of (RuntimeError _) = CRuntimeError"
| "class_of ZeroDivisionError = CZeroDivisionError"
| "class_of AttributeError = CAttributeError"
| "class_of NoSuchObject = CNoSuchObject"

text \<open>Lists and dicts cannot be hashed, so they cannot be keys of a dict.\<close>

fun hashable :: "pyval \<Rightarrow> bool" where
  "hashable (VList _) = False"
| "hashable (VDict _) = False"
| "hashable _ = True"

text \<open>Iterating a value, as a \<^verbatim>\<open>for\<close> loop does: a dict yields its keys, a string its
  characters, and None, integers and measurement objects are not iterable.\<close>

fun py_iter :: "pyval \<Rightarrow> py_error + pyval list" where
  "py_iter (VList xs) = Inr xs"
| "py_iter (VDict kvs) = Inr (map fst kvs)"
| "py_iter (VStr s) = Inr (map (\<lambda>c. VStr [c]) s)"
| "py_iter _ = Inl TypeError"

text \<open>Subscription \<^verbatim>\<open>d[k]\<close> with a string key.\<close>

fun py_getitem :: "pyval \<Rightarrow> string \<Rightarrow> py_error + pyval" where
  "py_getitem (VDict kvs) k =
     (case map_of kvs (VStr k) of None \<Rightarrow> Inl KeyError | Some v \<Rightarrow> Inr v)"
| "py_getitem _ k = Inl TypeError"

text \<open>The comparison \<^verbatim>\<open>x <= 0\<close>. The metadata documents \<^verbatim>\<open>submeter_of\<close> as an
  int; on any other value the comparison raises TypeError, as Python 3 does.\<close>

fun py_le_zero :: "pyval \<Rightarrow> py_error + bool" where
  "py_le_zero (VInt i) = Inr (i \<le> 0)"
| "py_le_zero _ = Inl TypeError"

section \<open>Meters, the heap and the class attributes\<close>

type_synonym metadata_dict = "string \<rightharpoonup> pyval"

text \<open>
  The data store is a collaborator outside the source file. The meter only calls its
  method \<^verbatim>\<open>load_metadata(key)\<close>, so a store is modelled by that method: it answers
  a fresh dict or raises.
\<close>

type_synonym datastore = "string \<Rightarrow> py_error + metadata_dict"

datatype ElectricityMeterID =
  ElectricityMeterID (instance_no: pyval) (building: pyval) (dataset: pyval)

record 'ap emeter =
  store :: "datastore option"
  keys :: "string list"
  appliances :: "'ap list"
  metadata :: metadata_dict

type_synonym addr = nat

text \<open>
  Meters are mutable objects, and the class attribute \<^verbatim>\<open>meters\<close> holds references
  to them: the heap maps addresses to meter objects, \<open>meters\<close> maps identifiers to
  addresses and \<open>meter_devices\<close> maps device model names to device dicts.
\<close>

record 'ap world =
  heap :: "addr \<rightharpoonup> 'ap emeter"
  next_addr :: addr
  meters :: "ElectricityMeterID \<rightharpoonup> addr"
  meter_devices :: "pyval \<rightharpoonup> pyval"

text \<open>\<^verbatim>\<open>md.get(k)\<close>: None when the key is missing.\<close>

definition md_get :: "metadata_dict \<Rightarrow> string \<Rightarrow> pyval" where
  "md_get md k = (case md k of None \<Rightarrow> VNone | Some v \<Rightarrow> v)"

text \<open>\<^verbatim>\<open>md.get(k, default)\<close>.\<close>

definition md_get_default :: "metadata_dict \<Rightarrow> string \<Rightarrow> pyval \<Rightarrow> pyval" where
  "md_get_default md k d = (case md k of None \<Rightarrow> d | Some v \<Rightarrow> v)"

definition "identifier" :: "'ap emeter \<Rightarrow> ElectricityMeterID" where
  "identifier m =
     (let md = metadata m
      in ElectricityMeterID (md_get md ''instance'') (md_get md ''building'')
           (md_get md ''dataset''))"

definition hashable_id :: "ElectricityMeterID \<Rightarrow> bool" where
  "hashable_id i \<longleftrightarrow> hashable (instance_no i) \<and> hashable (building i) \<and> hashable (dataset i)"

text \<open>The statement \<^verbatim>\<open>ElectricityMeter.meters[self.identifier] = self\<close>.\<close>

definition register :: "addr \<Rightarrow> 'ap world \<Rightarrow> (py_error + unit) \<times> 'ap world" where
  "register a w =
     (case heap w a of
        None \<Rightarrow> (Inl NoSuchObject, w)
      | Some m \<Rightarrow>
          if hashable_id (identifier m)
          then (Inr (), w\<lparr>meters := (meters w)(identifier m \<mapsto> a)\<rparr>)
          else (Inl TypeError, w))"

text \<open>\<^verbatim>\<open>__init__(metadata=None)\<close>: a new object is allocated, filled and registered.\<close>

definition init :: "metadata_dict option \<Rightarrow> 'ap world \<Rightarrow> (py_error + addr) \<times> 'ap world" where
  "init md_arg w =
     (let a = next_addr w;
          m = \<lparr>store = None, keys = [], appliances = [],
               metadata = (case md_arg of None \<Rightarrow> Map.empty | Some md \<Rightarrow> md)\<rparr>;
          w1 = w\<lparr>heap := (heap w)(a \<mapsto> m), next_addr := Suc a\<rparr>
      in case register a w1 of
           (Inl e, w2) \<Rightarrow> (Inl e, w2)
         | (Inr _, w2) \<Rightarrow> (Inr a, w2))"

section \<open>Resolving the upstream meter\<close>

definition msg_no_submeter_of :: string where
  "msg_no_submeter_of = ''This meter has no 'submeter_of' metadata attribute.''"

definition msg_submeter_of_range :: string where
  "msg_submeter_of_range = '''submeter_of' must be >= 1.''"

definition upstream_meter :: "'ap world \<Rightarrow> 'ap emeter \<Rightarrow> py_error + addr" where
  "upstream_meter w m =
     (let submeter_of = md_get (metadata m) ''submeter_of''
      in if submeter_of = VNone then Inl (ValueError msg_no_submeter_of)
         else case py_le_zero submeter_of of
           Inl e \<Rightarrow> Inl e
         | Inr True \<Rightarrow> Inl (ValueError msg_submeter_of_range)
         | Inr False \<Rightarrow>
             (let b0 = md_get (metadata m) ''upstream_meter_in_building'';
                  upstream_meter_in_building = (if b0 = VNone then building (identifier m) else b0);
                  id_of_upstream = ElectricityMeterID submeter_of upstream_meter_in_building
                                     (dataset (identifier m))
              in if \<not> hashable_id id_of_upstream then Inl TypeError
                 else case meters w id_of_upstream of
                        None \<Rightarrow> Inl KeyError
                      | Some a \<Rightarrow> Inr a))"

section \<open>Collaborators outside the source file\<close>

text \<open>
  \<^verbatim>\<open>nilmtk.datastore.Key\<close> is not part of the source file. The meter calls its
  constructor on the key string, reads and overwrites the attribute \<^verbatim>\<open>meter\<close> of the
  object and prints the object with \<^verbatim>\<open>str\<close>. A key object is a record with the field
  \<open>meter\<close>; its other addressing fields are the extension of the record, whatever they
  are. The constructor and the printer are parameters, and so is the constructor of
  \<^verbatim>\<open>nilmtk.appliance.Appliance\<close>.
\<close>

record key_obj =
  meter :: pyval

record ('z, 'ap) collaborators =
  Key :: "string \<Rightarrow> py_error + 'z key_obj_scheme"
  key_str :: "'z key_obj_scheme \<Rightarrow> string"
  Appliance :: "pyval \<Rightarrow> py_error + 'ap"

section \<open>Loading a meter\<close>

text \<open>Statements run one after the other; an exception ends the run and keeps the state
  reached so far.\<close>

definition and_then ::
  "(py_error + unit) \<times> 's \<Rightarrow> ('s \<Rightarrow> (py_error + unit) \<times> 's) \<Rightarrow> (py_error + unit) \<times> 's" where
  "and_then r f = (case r of (Inl e, s) \<Rightarrow> (Inl e, s) | (Inr _, s) \<Rightarrow> f s)"

text \<open>\<^verbatim>\<open>dict.update(other)\<close> on the device registry. A dict argument binds each of its
  keys to its value. Any other iterable is read as a sequence of pairs, bound one after the
  other until an element is not a pair or its key cannot be hashed; the bindings made
  before the exception stay.\<close>

fun update_seq :: "(pyval \<rightharpoonup> pyval) \<Rightarrow> pyval list \<Rightarrow> (py_error + unit) \<times> (pyval \<rightharpoonup> pyval)" where
  "update_seq d [] = (Inr (), d)"
| "update_seq d (e # es) =
     (case py_iter e of
        Inl err \<Rightarrow> (Inl TypeError, d)
      | Inr [k, v] \<Rightarrow> if hashable k then update_seq (d(k \<mapsto> v)) es else (Inl TypeError, d)
      | Inr _ \<Rightarrow> (Inl (ValueError []), d))"

fun dict_update :: "(pyval \<rightharpoonup> pyval) \<Rightarrow> pyval \<Rightarrow> (py_error + unit) \<times> (pyval \<rightharpoonup> pyval)" where
  "dict_update d (VDict kvs) = (Inr (), d ++ map_of kvs)"
| "dict_update d other =
     (case py_iter other of Inl e \<Rightarrow> (Inl e, d) | Inr es \<Rightarrow> update_seq d es)"

text \<open>The class method \<^verbatim>\<open>_load_meter_devices(store)\<close>.\<close>

definition load_meter_devices :: "datastore \<Rightarrow> 'ap world \<Rightarrow> (py_error + unit) \<times> 'ap world" where
  "load_meter_devices st w =
     (case st ''/'' of
        Inl e \<Rightarrow> (Inl e, w)
      | Inr dataset_metadata \<Rightarrow>
          (case dict_update (meter_devices w)
                  (md_get_default dataset_metadata ''meter_devices'' (VDict [])) of
             (r, d) \<Rightarrow> (r, w\<lparr>meter_devices := d\<rparr>)))"

text \<open>Lines 94 and 95: the store is set, then the metadata is read from it.\<close>

definition load_metadata_step ::
  "addr \<Rightarrow> datastore \<Rightarrow> string \<Rightarrow> 'ap world \<Rightarrow> (py_error + unit) \<times> 'ap world" where
  "load_metadata_step a st key w =
     (case heap w a of
        None \<Rightarrow> (Inl NoSuchObject, w)
      | Some m \<Rightarrow>
          (let w1 = w\<lparr>heap := (heap w)(a \<mapsto> m\<lparr>store := Some st\<rparr>)\<rparr>
           in case st key of
                Inl e \<Rightarrow> (Inl e, w1)
              | Inr md \<Rightarrow>
                  (Inr (), w\<lparr>heap := (heap w)(a \<mapsto> m\<lparr>store := Some st, metadata := md\<rparr>)\<rparr>)))"

text \<open>The loop of lines 100 to 103 over the additional channels.\<close>

fun append_channel_keys ::
  "('z key_obj_scheme \<Rightarrow> string) \<Rightarrow> 'z key_obj_scheme \<Rightarrow> string list \<Rightarrow> pyval list \<Rightarrow> string list" where
  "append_channel_keys str_of key_obj ks [] = ks"
| "append_channel_keys str_of key_obj ks (chan # chans) =
     (let new_key_obj = key_obj\<lparr>meter := chan\<rparr>
      in append_channel_keys str_of key_obj (ks @ [str_of new_key_obj]) chans)"

text \<open>Lines 97 to 103.\<close>

definition load_keys ::
  "('z, 'ap) collaborators \<Rightarrow> addr \<Rightarrow> string \<Rightarrow> 'ap world \<Rightarrow> (py_error + unit) \<times> 'ap world" where
  "load_keys env a key w =
     (case heap w a of
        None \<Rightarrow> (Inl NoSuchObject, w)
      | Some m \<Rightarrow>
          (let m1 = m\<lparr>keys := [key]\<rparr>;
               w1 = w\<lparr>heap := (heap w)(a \<mapsto> m1)\<rparr>
           in case Key env key of
                Inl e \<Rightarrow> (Inl e, w1)
              | Inr key_obj \<Rightarrow>
                  if meter key_obj = VNone then (Inl AssertionError, w1)
                  else (case py_iter (md_get_default (metadata m1) ''additional_channels'' (VList [])) of
                          Inl e \<Rightarrow> (Inl e, w1)
                        | Inr chans \<Rightarrow>
                            (Inr (), w\<lparr>heap := (heap w)(a \<mapsto>
                               m1\<lparr>keys := append_channel_keys (key_str env) key_obj (keys m1) chans\<rparr>)\<rparr>))))"

text \<open>Line 156 and the right-hand side of line 107: the registry is subscripted with
  the value of \<^verbatim>\<open>device_model\<close>.\<close>

definition lookup_device :: "'ap world \<Rightarrow> pyval \<Rightarrow> py_error + pyval" where
  "lookup_device w device_model =
     (if \<not> hashable device_model then Inl TypeError
      else case meter_devices w device_model of None \<Rightarrow> Inl KeyError | Some d \<Rightarrow> Inr d)"

text \<open>Lines 106 and 107.\<close>

definition cache_device :: "addr \<Rightarrow> 'ap world \<Rightarrow> (py_error + unit) \<times> 'ap world" where
  "cache_device a w =
     (case heap w a of
        None \<Rightarrow> (Inl NoSuchObject, w)
      | Some m \<Rightarrow>
          (case metadata m ''device_model'' of
             None \<Rightarrow> (Inl KeyError, w)
           | Some device_model \<Rightarrow>
               (case lookup_device w device_model of
                  Inl e \<Rightarrow> (Inl e, w)
                | Inr d \<Rightarrow>
                    (Inr (), w\<lparr>heap := (heap w)(a \<mapsto>
                       m\<lparr>metadata := (metadata m)(''device'' \<mapsto> d)\<rparr>)\<rparr>))))"

text \<open>The loop of lines 110 and 111: appliances built before an exception stay appended.\<close>

fun append_appliances ::
  "(pyval \<Rightarrow> py_error + 'ap) \<Rightarrow> 'ap list \<Rightarrow> pyval list \<Rightarrow> (py_error + unit) \<times> 'ap list" where
  "append_appliances mk aps [] = (Inr (), aps)"
| "append_appliances mk aps (appliance_metadata # rest) =
     (case mk appliance_metadata of
        Inl e \<Rightarrow> (Inl e, aps)
      | Inr ap \<Rightarrow> append_appliances mk (aps @ [ap]) rest)"

definition load_appliances ::
  "('z, 'ap) collaborators \<Rightarrow> addr \<Rightarrow> 'ap world \<Rightarrow> (py_error + unit) \<times> 'ap world" where
  "load_appliances env a w =
     (case heap w a of
        None \<Rightarrow> (Inl NoSuchObject, w)
      | Some m \<Rightarrow>
          (case py_iter (md_get_default (metadata m) ''appliances'' (VList [])) of
             Inl e \<Rightarrow> (Inl e, w)
           | Inr mds \<Rightarrow>
               (case append_appliances (Appliance env) (appliances m) mds of
                  (r, aps) \<Rightarrow> (r, w\<lparr>heap := (heap w)(a \<mapsto> m\<lparr>appliances := aps\<rparr>)\<rparr>))))"

text \<open>\<^verbatim>\<open>load(store, key)\<close>. The key is a string by its type, so the first assertion
  holds; the print statement is left out.\<close>

definition load ::
  "('z, 'ap) collaborators \<Rightarrow> addr \<Rightarrow> datastore \<Rightarrow> string \<Rightarrow> 'ap world
     \<Rightarrow> (py_error + unit) \<times> 'ap world" where
  "load env a st key w =
     and_then (and_then (and_then (and_then (and_then
       (load_metadata_step a st key w)
       (load_keys env a key))
       (load_meter_devices st))
       (cache_device a))
       (load_appliances env a))
       (register a)"

section \<open>Derived queries\<close>

text \<open>The property \<^verbatim>\<open>device\<close>.\<close>

definition device :: "'ap world \<Rightarrow> 'ap emeter \<Rightarrow> py_error + pyval" where
  "device w m =
     (case metadata m ''device_model'' of
        None \<Rightarrow> Inl KeyError
      | Some device_model \<Rightarrow> lookup_device w device_model)"

text \<open>The comprehension \<^verbatim>\<open>[m.ac_type for m in measurements if isinstance(m, Power)]\<close>.\<close>

fun power_ac_types :: "pyval list \<Rightarrow> string list" where
  "power_ac_types [] = []"
| "power_ac_types (VMeas (Power t) # ms) = t # power_ac_types ms"
| "power_ac_types (m # ms) = power_ac_types ms"

definition available_ac_types :: "'ap world \<Rightarrow> 'ap emeter \<Rightarrow> py_error + string list" where
  "available_ac_types w m =
     (case device w m of
        Inl e \<Rightarrow> Inl e
      | Inr d \<Rightarrow>
          (case py_getitem d ''measurements'' of
             Inl e \<Rightarrow> Inl e
           | Inr measurements \<Rightarrow>
               (case py_iter measurements of
                  Inl e \<Rightarrow> Inl e
                | Inr ms \<Rightarrow> Inr (power_ac_types ms))))"

section \<open>Running a pipeline\<close>

text \<open>
  The nodes and the pipeline of \<^verbatim>\<open>nilmtk.pipeline\<close> are collaborators outside the
  source file. A node object is its class; constructing a node or a pipeline and running
  the pipeline are recorded as events, in the order in which the code does them. The
  method \<^verbatim>\<open>run\<close> is a parameter: from the node list, the meter and the keyword
  arguments it gives the mapping \<^verbatim>\<open>pipeline.results\<close>, or raises.
\<close>

datatype node = ClipNode | EnergyNode | LocateGoodSectionsNode

datatype event = NodeCreated node | PipelineCreated "node list" | PipelineRun

text \<open>
  Modelled from the spec: the result classes of \<^verbatim>\<open>nilmtk.pipeline\<close> are not part of
  the source file. The spec describes the \<^verbatim>\<open>'good_sections'\<close> entry as a sequence of
  time intervals and divides one \<^verbatim>\<open>'energy'\<close> entry by another, so an energy is a
  number (here a real number, leaving rounding out) and a section is a pair of time stamps.
\<close>

datatype artifact = Energy real | Sections "(int \<times> int) list"

type_synonym results = "string \<rightharpoonup> artifact"

type_synonym 'ap pipeline_run = "node list \<Rightarrow> 'ap emeter \<Rightarrow> results \<Rightarrow> py_error + results"

text \<open>
  Modelled from the spec: the division of one energy by another. The spec makes the
  division by a zero energy a defined failure, as the division of Python numbers is.
\<close>

fun py_truediv :: "artifact \<Rightarrow> artifact \<Rightarrow> py_error + artifact" where
  "py_truediv (Energy x) (Energy y) =
     (if y = 0 then Inl ZeroDivisionError else Inr (Energy (x / y)))"
| "py_truediv _ _ = Inl TypeError"

definition msg_store_not_set :: string where
  "msg_store_not_set = '''meter.store' is not set! Cannot process data without a DataStore!''"

text \<open>\<^verbatim>\<open>_run_pipeline(nodes, **load_kwargs)\<close>.\<close>

definition run_pipeline ::
  "'ap pipeline_run \<Rightarrow> 'ap emeter \<Rightarrow> node list \<Rightarrow> results \<Rightarrow> event list
     \<Rightarrow> (py_error + results) \<times> event list" where
  "run_pipeline run m nodes load_kwargs tr =
     (case store m of
        None \<Rightarrow> (Inl (RuntimeError msg_store_not_set), tr)
      | Some st \<Rightarrow> (run nodes m load_kwargs, tr @ [PipelineCreated nodes, PipelineRun]))"

text \<open>\<^verbatim>\<open>results[name]\<close>.\<close>

definition results_getitem :: "results \<Rightarrow> string \<Rightarrow> py_error + artifact" where
  "results_getitem rs name = (case rs name of None \<Rightarrow> Inl KeyError | Some v \<Rightarrow> Inr v)"

definition total_energy ::
  "'ap pipeline_run \<Rightarrow> 'ap emeter \<Rightarrow> results \<Rightarrow> event list \<Rightarrow> (py_error + artifact) \<times> event list" where
  "total_energy run m load_kwargs tr =
     (let nodes = [ClipNode, EnergyNode];
          tr1 = tr @ [NodeCreated ClipNode, NodeCreated EnergyNode]
      in case run_pipeline run m nodes load_kwargs tr1 of
           (Inl e, tr2) \<Rightarrow> (Inl e, tr2)
         | (Inr rs, tr2) \<Rightarrow> (results_getitem rs ''energy'', tr2))"

definition good_sections ::
  "'ap pipeline_run \<Rightarrow> 'ap emeter \<Rightarrow> event list \<Rightarrow> (py_error + artifact) \<times> event list" where
  "good_sections run m tr =
     (let nodes = [LocateGoodSectionsNode];
          tr1 = tr @ [NodeCreated LocateGoodSectionsNode]
      in case run_pipeline run m nodes Map.empty tr1 of
           (Inl e, tr2) \<Rightarrow> (Inl e, tr2)
         | (Inr rs, tr2) \<Rightarrow> (results_getitem rs ''good_sections'', tr2))"

text \<open>
  Line 293 calls \<^verbatim>\<open>mains.good_timeframes()\<close>. The class defines the method
  \<^verbatim>\<open>good_sections\<close> and no attribute of the name \<^verbatim>\<open>good_timeframes\<close>, so on
  a meter the attribute lookup raises AttributeError.
\<close>

definition good_timeframes :: "'ap emeter \<Rightarrow> py_error + artifact" where
  "good_timeframes mains = Inl AttributeError"

text \<open>\<^verbatim>\<open>proportion_of_energy(mains)\<close>. The dividend is computed before the divisor.\<close>

definition proportion_of_energy ::
  "'ap pipeline_run \<Rightarrow> 'ap emeter \<Rightarrow> 'ap emeter \<Rightarrow> event list
     \<Rightarrow> (py_error + artifact) \<times> event list" where
  "proportion_of_energy run self mains tr =
     (case good_timeframes mains of
        Inl e \<Rightarrow> (Inl e, tr)
      | Inr good_mains_timeframes \<Rightarrow>
          (let kw = [''timeframes'' \<mapsto> good_mains_timeframes]
           in case total_energy run self kw tr of
                (Inl e, tr1) \<Rightarrow> (Inl e, tr1)
              | (Inr e_self, tr1) \<Rightarrow>
                  (case total_energy run mains kw tr1 of
                     (Inl e, tr2) \<Rightarrow> (Inl e, tr2)
                   | (Inr e_mains, tr2) \<Rightarrow> (py_truediv e_self e_mains, tr2))))"

section \<open>Example data\<close>

text \<open>Concrete worlds, meters and collaborators on which the theorems below are run.\<close>

definition W0 :: "pyval world" where
  "W0 = \<lparr>heap = Map.empty, next_addr = 0, meters = Map.empty, meter_devices = Map.empty\<rparr>"

definition new_meter :: "metadata_dict \<Rightarrow> pyval emeter" where
  "new_meter md = \<lparr>store = None, keys = [], appliances = [], metadata = md\<rparr>"

text \<open>The site meter B and its submeter A of the scenario of the spec.\<close>

definition mdB :: metadata_dict where
  "mdB = [''instance'' \<mapsto> VInt 1, ''building'' \<mapsto> VInt 1, ''dataset'' \<mapsto> VStr ''D'']"

definition mdA :: metadata_dict where
  "mdA = [''instance'' \<mapsto> VInt 2, ''building'' \<mapsto> VInt 1, ''dataset'' \<mapsto> VStr ''D'',
          ''submeter_of'' \<mapsto> VInt 1]"

definition idB_val :: ElectricityMeterID where
  "idB_val = ElectricityMeterID (VInt 1) (VInt 1) (VStr ''D'')"

definition idA_val :: ElectricityMeterID where
  "idA_val = ElectricityMeterID (VInt 2) (VInt 1) (VStr ''D'')"

definition W1 :: "pyval world" where
  "W1 = \<lparr>heap = [0 \<mapsto> new_meter mdB], next_addr = 1, meters = [idB_val \<mapsto> 0],
          meter_devices = Map.empty\<rparr>"

definition W2 :: "pyval world" where
  "W2 = \<lparr>heap = [0 \<mapsto> new_meter mdB, 1 \<mapsto> new_meter mdA], next_addr = 2,
          meters = [idB_val \<mapsto> 0, idA_val \<mapsto> 1], meter_devices = Map.empty\<rparr>"

text \<open>A pipeline with no results, and one whose energy is the number of keys of the meter.\<close>

definition run_nothing :: "pyval pipeline_run" where
  "run_nothing nodes m kw = Inr Map.empty"

definition run_by_keys :: "pyval pipeline_run" where
  "run_by_keys nodes m kw = Inr [''energy'' \<mapsto> Energy (of_nat (length (keys m)))]"

definition store_nothing :: datastore where
  "store_nothing k = Inl KeyError"

definition meter_with_keys :: "string list \<Rightarrow> pyval emeter" where
  "meter_with_keys ks =
     \<lparr>store = Some store_nothing, keys = ks, appliances = [], metadata = Map.empty\<rparr>"

text \<open>A toy key syntax: the last character of a key is the digit of the meter, and a key
  that does not end in a digit addresses no meter. The other addressing fields of the key
  object are the characters before the digit.\<close>

definition digits :: "(char \<times> int) list" where
  "digits = [(CHR ''0'', 0), (CHR ''1'', 1), (CHR ''2'', 2), (CHR ''3'', 3), (CHR ''4'', 4),
             (CHR ''5'', 5), (CHR ''6'', 6), (CHR ''7'', 7), (CHR ''8'', 8), (CHR ''9'', 9)]"

definition Key_ex :: "string \<Rightarrow> py_error + string key_obj_scheme" where
  "Key_ex s =
     (if s = [] then Inl (ValueError [])
      else case map_of digits (last s) of
             None \<Rightarrow> Inr \<lparr>meter = VNone, \<dots> = s\<rparr>
           | Some n \<Rightarrow> Inr \<lparr>meter = VInt n, \<dots> = butlast s\<rparr>)"

definition key_str_ex :: "string key_obj_scheme \<Rightarrow> string" where
  "key_str_ex k =
     key_obj.more k @
       (case meter k of
          VInt n \<Rightarrow> (case map_of (map prod.swap digits) n of None \<Rightarrow> [] | Some c \<Rightarrow> [c])
        | _ \<Rightarrow> [])"

definition ENV :: "(string, pyval) collaborators" where
  "ENV = \<lparr>Key = Key_ex, key_str = key_str_ex, Appliance = (\<lambda>md. Inr md)\<rparr>"

definition K2 :: string where
  "K2 = ''/building1/elec/meter2''"

definition K3 :: string where
  "K3 = ''/building1/elec/meter3''"

definition K0 :: string where
  "K0 = ''/building1/elec''"

definition fridge :: pyval where
  "fridge = VDict [(VStr ''type'', VStr ''fridge'')]"

definition md2 :: metadata_dict where
  "md2 = [''instance'' \<mapsto> VInt 2, ''building'' \<mapsto> VInt 1, ''dataset'' \<mapsto> VStr ''REDD'',
          ''device_model'' \<mapsto> VStr ''EnviR'', ''additional_channels'' \<mapsto> VList [VInt 3],
          ''appliances'' \<mapsto> VList [fridge]]"

definition md0 :: metadata_dict where
  "md0 = [''instance'' \<mapsto> VInt 5, ''building'' \<mapsto> VInt 1, ''dataset'' \<mapsto> VStr ''REDD'']"

definition dev_old :: pyval where
  "dev_old = VDict [(VStr ''model'', VStr ''EnviR''),
                    (VStr ''measurements'',
                     VList [VMeas (Power ''apparent''), VMeas Voltage, VMeas (Power ''active''),
                            VMeas (Power ''apparent'')])]"

definition dev_new :: pyval where
  "dev_new = VDict [(VStr ''model'', VStr ''EnviR''),
                    (VStr ''measurements'', VList [VMeas (Power ''active'')])]"

definition ST1 :: datastore where
  "ST1 k = (if k = ''/'' then Inr [''meter_devices'' \<mapsto> VDict [(VStr ''EnviR'', dev_old)]]
            else if k = K2 then Inr md2
            else if k = K0 then Inr md0
            else Inl KeyError)"

definition ST2 :: datastore where
  "ST2 k = (if k = ''/'' then Inr [''meter_devices'' \<mapsto> VDict [(VStr ''EnviR'', dev_new)]]
            else Inl KeyError)"

definition id_none :: ElectricityMeterID where
  "id_none = ElectricityMeterID VNone VNone VNone"

definition id2 :: ElectricityMeterID where
  "id2 = ElectricityMeterID (VInt 2) (VInt 1) (VStr ''REDD'')"

text \<open>The world after \<^verbatim>\<open>ElectricityMeter()\<close>, the meter after its load from \<open>ST1\<close>
  under \<open>K2\<close>, the world then, and the world after a later load of the devices of
  \<open>ST2\<close>.\<close>

definition WL0 :: "pyval world" where
  "WL0 = \<lparr>heap = [0 \<mapsto> new_meter Map.empty], next_addr = 1, meters = [id_none \<mapsto> 0],
           meter_devices = Map.empty\<rparr>"

definition M2 :: "pyval emeter" where
  "M2 = \<lparr>store = Some ST1, keys = [K2, K3], appliances = [fridge],
          metadata = md2(''device'' \<mapsto> dev_old)\<rparr>"

definition WL1 :: "pyval world" where
  "WL1 = \<lparr>heap = [0 \<mapsto> M2], next_addr = 1, meters = [id_none \<mapsto> 0, id2 \<mapsto> 0],
           meter_devices = [VStr ''EnviR'' \<mapsto> dev_old]\<rparr>"

definition WL2 :: "pyval world" where
  "WL2 = \<lparr>heap = [0 \<mapsto> M2], next_addr = 1, meters = [id_none \<mapsto> 0, id2 \<mapsto> 0],
           meter_devices = [VStr ''EnviR'' \<mapsto> dev_new]\<rparr>"

text \<open>What the claim on \<open>available_ac_types\<close> calls the tag of a power entry.\<close>

fun power_tag :: "pyval \<Rightarrow> string option" where
  "power_tag (VMeas (Power t)) = Some t"
| "power_tag _ = None"

text \<open>The worlds between the steps of that load.\<close>

definition WLa :: "pyval world" where
  "WLa = WL0\<lparr>heap := [0 \<mapsto> (new_meter Map.empty)\<lparr>store := Some ST1, metadata := md2\<rparr>]\<rparr>"

definition WLb :: "pyval world" where
  "WLb = WL0\<lparr>heap := [0 \<mapsto> (new_meter Map.empty)\<lparr>store := Some ST1, metadata := md2, keys := [K2, K3]\<rparr>]\<rparr>"

definition WLc :: "pyval world" where
  "WLc = WLb\<lparr>meter_devices := [VStr ''EnviR'' \<mapsto> dev_old]\<rparr>"

definition WLd :: "pyval world" where
  "WLd = WLc\<lparr>heap := [0 \<mapsto> M2\<lparr>appliances := []\<rparr>]\<rparr>"

definition WLe :: "pyval world" where
  "WLe = WLc\<lparr>heap := [0 \<mapsto> M2]\<rparr>"

section \<open>Auxiliary facts\<close>

subsection \<open>Sequencing and the loops\<close>

lemma and_then_Inr:
  assumes "and_then r f = (Inr u, s')"
  obtains s where "r = (Inr (), s)" and "f s = (Inr u, s')"
  using assms by (auto simp: and_then_def split: prod.splits sum.splits)

lemma append_channel_keys_map:
  "append_channel_keys str_of key_obj ks chans =
     ks @ map (\<lambda>chan. str_of (key_obj\<lparr>meter := chan\<rparr>)) chans"
  by (induction chans arbitrary: ks) (simp_all add: Let_def)

subsection \<open>The update of the device registry\<close>

lemma map_add_twice: "(d ++ f) ++ f = d ++ (f :: 'a \<rightharpoonup> 'b)"
  by (rule ext) (simp add: map_add_def split: option.split)

lemma update_seq_add: "\<exists>f r. \<forall>d. update_seq d es = (r, d ++ f)"
proof (induction es)
  case Nil
  have "\<forall>d. update_seq d [] = (Inr (), d ++ Map.empty)" by simp
  then show ?case by blast
next
  case (Cons e es)
  from Cons.IH obtain f r where fr: "\<And>d. update_seq d es = (r, d ++ f)" by blast
  show ?case
  proof (cases "\<exists>k v. py_iter e = Inr [k, v] \<and> hashable k")
    case True
    then obtain k v where kv: "py_iter e = Inr [k, v]" "hashable k" by blast
    have "\<forall>d. update_seq d (e # es) = (r, d ++ ([k \<mapsto> v] ++ f))"
      using kv fr by simp
    then show ?thesis by blast
  next
    case False
    define r' :: "py_error + unit" where
      "r' = (case py_iter e of Inl err \<Rightarrow> Inl TypeError | Inr [k, v] \<Rightarrow> Inl TypeError
             | Inr _ \<Rightarrow> Inl (ValueError []))"
    have "\<forall>d. update_seq d (e # es) = (r', d ++ Map.empty)"
      using False by (auto simp: r'_def split: sum.splits list.splits)
    then show ?thesis by blast
  qed
qed

lemma dict_update_add: "\<exists>f r. \<forall>d. dict_update d v = (r, d ++ f)"
proof (cases v)
  case (VDict kvs)
  then have "\<forall>d. dict_update d v = (Inr (), d ++ map_of kvs)" by simp
  then show ?thesis by blast
next
  case VNone
  then have "\<forall>d. dict_update d v = (Inl TypeError, d ++ Map.empty)" by simp
  then show ?thesis by blast
next
  case (VInt i)
  then have "\<forall>d. dict_update d v = (Inl TypeError, d ++ Map.empty)" by simp
  then show ?thesis by blast
next
  case (VMeas x)
  then have "\<forall>d. dict_update d v = (Inl TypeError, d ++ Map.empty)" by simp
  then show ?thesis by blast
next
  case (VStr s)
  then show ?thesis using update_seq_add [of "map (\<lambda>c. VStr [c]) s"] by simp
next
  case (VList xs)
  then show ?thesis using update_seq_add [of xs] by simp
qed

lemma dict_update_twice:
  "dict_update (snd (dict_update d v)) v = dict_update d v"
proof -
  obtain f r where fr: "\<And>d. dict_update d v = (r, d ++ f)"
    using dict_update_add [of v] by blast
  show ?thesis by (simp add: fr map_add_twice)
qed

lemma dict_update_dom: "dom d \<subseteq> dom (snd (dict_update d v))"
proof -
  obtain f r where fr: "\<And>d. dict_update d v = (r, d ++ f)"
    using dict_update_add [of v] by blast
  show ?thesis by (simp add: fr)
qed

subsection \<open>The steps of a load\<close>

lemma load_metadata_step_Inr:
  assumes "load_metadata_step a st key w = (Inr (), w1)"
  obtains m md where "heap w a = Some m" and "st key = Inr md"
    and "w1 = w\<lparr>heap := (heap w)(a \<mapsto> m\<lparr>store := Some st, metadata := md\<rparr>)\<rparr>"
  using assms
  by (auto simp: load_metadata_step_def Let_def split: option.splits sum.splits)

lemma load_keys_Inr:
  assumes "load_keys env a key w = (Inr (), w2)" and "heap w a = Some m"
  obtains key_obj chans where "Key env key = Inr key_obj" and "meter key_obj \<noteq> VNone"
    and "py_iter (md_get_default (metadata m) ''additional_channels'' (VList [])) = Inr chans"
    and "w2 = w\<lparr>heap := (heap w)(a \<mapsto>
           m\<lparr>keys := key # map (\<lambda>chan. key_str env (key_obj\<lparr>meter := chan\<rparr>)) chans\<rparr>)\<rparr>"
  using assms
  by (auto simp: load_keys_def Let_def append_channel_keys_map
      split: option.splits sum.splits if_splits)

lemma load_meter_devices_frame:
  assumes "load_meter_devices st w = (r, w3)"
  shows "heap w3 = heap w \<and> meters w3 = meters w \<and> next_addr w3 = next_addr w"
  using assms
  by (auto simp: load_meter_devices_def split: sum.splits prod.splits)

lemma cache_device_Inr:
  assumes "cache_device a w = (Inr (), w4)" and "heap w a = Some m"
  obtains device_model d where "metadata m ''device_model'' = Some device_model"
    and "hashable device_model" and "meter_devices w device_model = Some d"
    and "w4 = w\<lparr>heap := (heap w)(a \<mapsto> m\<lparr>metadata := (metadata m)(''device'' \<mapsto> d)\<rparr>)\<rparr>"
  using assms
  by (auto simp: cache_device_def lookup_device_def split: option.splits sum.splits if_splits)

lemma load_appliances_Inr:
  assumes "load_appliances env a w = (Inr (), w5)" and "heap w a = Some m"
  obtains aps where "w5 = w\<lparr>heap := (heap w)(a \<mapsto> m\<lparr>appliances := aps\<rparr>)\<rparr>"
  using assms
  by (auto simp: load_appliances_def split: option.splits sum.splits prod.splits)

lemma register_Inr:
  assumes "register a w = (Inr (), w')" and "heap w a = Some m"
  shows "hashable_id (identifier m) \<and> w' = w\<lparr>meters := (meters w)(identifier m \<mapsto> a)\<rparr>"
  using assms by (auto simp: register_def split: if_splits)

text \<open>What a load that returns has done.\<close>

lemma load_success:
  assumes "load env a st key w = (Inr (), w')"
  obtains m md key_obj chans device_model d aps m' where
    "heap w a = Some m" and "st key = Inr md" and "Key env key = Inr key_obj"
    and "meter key_obj \<noteq> VNone"
    and "py_iter (md_get_default md ''additional_channels'' (VList [])) = Inr chans"
    and "md ''device_model'' = Some device_model" and "hashable device_model"
    and "meter_devices w' device_model = Some d"
    and "m' = \<lparr>store = Some st,
               keys = key # map (\<lambda>chan. key_str env (key_obj\<lparr>meter := chan\<rparr>)) chans,
               appliances = aps, metadata = md(''device'' \<mapsto> d)\<rparr>"
    and "heap w' = (heap w)(a \<mapsto> m')"
    and "meters w' = (meters w)(identifier m' \<mapsto> a)"
    and "hashable_id (identifier m')"
proof -
  from assms obtain w5 where s5: "and_then (and_then (and_then (and_then
       (load_metadata_step a st key w)
       (load_keys env a key))
       (load_meter_devices st))
       (cache_device a))
       (load_appliances env a) = (Inr (), w5)" and r6: "register a w5 = (Inr (), w')"
    unfolding load_def by (rule and_then_Inr)
  from s5 obtain w4 where s4: "and_then (and_then (and_then
       (load_metadata_step a st key w)
       (load_keys env a key))
       (load_meter_devices st))
       (cache_device a) = (Inr (), w4)" and r5: "load_appliances env a w4 = (Inr (), w5)"
    by (rule and_then_Inr)
  from s4 obtain w3 where s3: "and_then (and_then
       (load_metadata_step a st key w)
       (load_keys env a key))
       (load_meter_devices st) = (Inr (), w3)" and r4: "cache_device a w3 = (Inr (), w4)"
    by (rule and_then_Inr)
  from s3 obtain w2 where s2: "and_then
       (load_metadata_step a st key w)
       (load_keys env a key) = (Inr (), w2)" and r3: "load_meter_devices st w2 = (Inr (), w3)"
    by (rule and_then_Inr)
  from s2 obtain w1 where r1: "load_metadata_step a st key w = (Inr (), w1)"
    and r2: "load_keys env a key w1 = (Inr (), w2)"
    by (rule and_then_Inr)
  from r1 obtain m md where m: "heap w a = Some m" and md: "st key = Inr md"
    and w1: "w1 = w\<lparr>heap := (heap w)(a \<mapsto> m\<lparr>store := Some st, metadata := md\<rparr>)\<rparr>"
    by (rule load_metadata_step_Inr)
  define m1 where "m1 = m\<lparr>store := Some st, metadata := md\<rparr>"
  have h1: "heap w1 a = Some m1" by (simp add: w1 m1_def)
  from r2 h1 obtain key_obj chans where ko: "Key env key = Inr key_obj"
    and nn: "meter key_obj \<noteq> VNone"
    and ch: "py_iter (md_get_default (metadata m1) ''additional_channels'' (VList [])) = Inr chans"
    and w2: "w2 = w1\<lparr>heap := (heap w1)(a \<mapsto>
           m1\<lparr>keys := key # map (\<lambda>chan. key_str env (key_obj\<lparr>meter := chan\<rparr>)) chans\<rparr>)\<rparr>"
    by (rule load_keys_Inr)
  define m2 where
    "m2 = m1\<lparr>keys := key # map (\<lambda>chan. key_str env (key_obj\<lparr>meter := chan\<rparr>)) chans\<rparr>"
  have h2: "heap w2 a = Some m2" by (simp add: w2 m2_def)
  have f3: "heap w3 = heap w2" "meters w3 = meters w2"
    using load_meter_devices_frame [OF r3] by simp_all
  have h3: "heap w3 a = Some m2" by (simp add: f3 h2)
  from r4 h3 obtain device_model d where dm: "metadata m2 ''device_model'' = Some device_model"
    and hd: "hashable device_model" and dd: "meter_devices w3 device_model = Some d"
    and w4: "w4 = w3\<lparr>heap := (heap w3)(a \<mapsto> m2\<lparr>metadata := (metadata m2)(''device'' \<mapsto> d)\<rparr>)\<rparr>"
    by (rule cache_device_Inr)
  define m4 where "m4 = m2\<lparr>metadata := (metadata m2)(''device'' \<mapsto> d)\<rparr>"
  have h4: "heap w4 a = Some m4" by (simp add: w4 m4_def)
  from r5 h4 obtain aps where w5: "w5 = w4\<lparr>heap := (heap w4)(a \<mapsto> m4\<lparr>appliances := aps\<rparr>)\<rparr>"
    by (rule load_appliances_Inr)
  define m' where "m' = \<lparr>store = Some st,
               keys = key # map (\<lambda>chan. key_str env (key_obj\<lparr>meter := chan\<rparr>)) chans,
               appliances = aps, metadata = md(''device'' \<mapsto> d)\<rparr>"
  have m5: "m4\<lparr>appliances := aps\<rparr> = m'"
    by (simp add: m4_def m2_def m1_def m'_def)
  have h5: "heap w5 a = Some m'" by (simp add: w5 m5)
  from register_Inr [OF r6 h5] have hi: "hashable_id (identifier m')"
    and w': "w' = w5\<lparr>meters := (meters w5)(identifier m' \<mapsto> a)\<rparr>" by simp_all
  have heap': "heap w' = (heap w)(a \<mapsto> m')"
    by (simp add: w' w5 w4 f3 w2 w1 m5)
  have meters': "meters w' = (meters w)(identifier m' \<mapsto> a)"
    by (simp add: w' w5 w4 f3 w2 w1)
  have dev': "meter_devices w' device_model = Some d"
    by (simp add: w' w5 w4 dd)
  have ch': "py_iter (md_get_default md ''additional_channels'' (VList [])) = Inr chans"
    using ch by (simp add: m1_def)
  have dm': "md ''device_model'' = Some device_model"
    using dm by (simp add: m2_def m1_def)
  show thesis
    using that [OF m md ko nn ch' dm' hd dev' m'_def heap' meters' hi] .
qed

subsection \<open>The example load, step by step\<close>

lemma Key_ex_K2: "Key_ex K2 = Inr \<lparr>meter = VInt 2, \<dots> = ''/building1/elec/meter''\<rparr>"
  by (simp add: Key_ex_def K2_def digits_def)

lemma Key_ex_K0: "Key_ex K0 = Inr \<lparr>meter = VNone, \<dots> = K0\<rparr>"
  by (simp add: Key_ex_def K0_def digits_def)

lemma key_str_ex_3: "key_str_ex \<lparr>meter = VInt 3, \<dots> = ''/building1/elec/meter''\<rparr> = K3"
  by (simp add: key_str_ex_def K3_def digits_def)

lemma ST1_root: "ST1 ''/'' = Inr [''meter_devices'' \<mapsto> VDict [(VStr ''EnviR'', dev_old)]]"
  by (simp add: ST1_def)

lemma ST1_K2: "ST1 K2 = Inr md2"
  by (simp add: ST1_def K2_def)

lemma ST1_K0: "ST1 K0 = Inr md0"
  by (simp add: ST1_def K0_def K2_def)

lemma ST2_root: "ST2 ''/'' = Inr [''meter_devices'' \<mapsto> VDict [(VStr ''EnviR'', dev_new)]]"
  by (simp add: ST2_def)

lemma md2_lookups:
  "md2 ''instance'' = Some (VInt 2)" "md2 ''building'' = Some (VInt 1)"
  "md2 ''dataset'' = Some (VStr ''REDD'')" "md2 ''device_model'' = Some (VStr ''EnviR'')"
  "md2 ''additional_channels'' = Some (VList [VInt 3])"
  "md2 ''appliances'' = Some (VList [fridge])"
  by (simp_all add: md2_def)

lemma identifier_M2: "identifier M2 = id2"
  by (simp add: identifier_def M2_def md_get_def md2_lookups id2_def)

lemma init_None: "init None W0 = (Inr 0, WL0)"
  by (simp add: init_def register_def W0_def WL0_def identifier_def md_get_def hashable_id_def
      id_none_def new_meter_def)

lemma step1: "load_metadata_step 0 ST1 K2 WL0 = (Inr (), WLa)"
  by (simp add: load_metadata_step_def WL0_def WLa_def ST1_K2)

lemma step2: "load_keys ENV 0 K2 WLa = (Inr (), WLb)"
  by (simp add: load_keys_def WLa_def WLb_def WL0_def ENV_def Key_ex_K2 new_meter_def
      md_get_default_def md2_lookups key_str_ex_3)

lemma step3: "load_meter_devices ST1 WLb = (Inr (), WLc)"
  by (simp add: load_meter_devices_def ST1_root md_get_default_def WLc_def WLb_def WL0_def)

lemma step4: "cache_device 0 WLc = (Inr (), WLd)"
  by (simp add: cache_device_def WLc_def WLb_def WL0_def WLd_def new_meter_def md2_lookups
      lookup_device_def M2_def)

lemma step5: "load_appliances ENV 0 WLd = (Inr (), WLe)"
  by (simp add: load_appliances_def WLd_def WLe_def WLc_def WLb_def WL0_def M2_def ENV_def
      md_get_default_def md2_lookups)

lemma step6: "register 0 WLe = (Inr (), WL1)"
  by (simp add: register_def WLe_def WLc_def WLb_def WL0_def identifier_M2 WL1_def
      hashable_id_def id2_def)

lemma load_example: "load ENV 0 ST1 K2 WL0 = (Inr (), WL1)"
  by (simp add: load_def and_then_def step1 step2 step3 step4 step5 step6)

lemma devices_example: "load_meter_devices ST2 WL1 = (Inr (), WL2)"
  by (simp add: load_meter_devices_def ST2_root md_get_default_def WL1_def WL2_def)

lemma heap_WL1: "heap WL1 0 = Some M2"
  by (simp add: WL1_def)

lemma device_WL1: "device WL1 M2 = Inr dev_old"
  by (simp add: device_def M2_def md2_lookups lookup_device_def WL1_def)

section \<open>The upstream meter\<close>

lemma identifier_mdB: "identifier (new_meter mdB) = idB_val"
  by (simp add: identifier_def md_get_def mdB_def new_meter_def idB_val_def)

lemma identifier_mdA: "identifier (new_meter mdA) = idA_val"
  by (simp add: identifier_def md_get_def mdA_def new_meter_def idA_val_def)

lemma init_B: "init (Some mdB) W0 = (Inr 0, W1)"
  using identifier_mdB
  by (simp add: init_def register_def W0_def W1_def hashable_id_def idB_val_def new_meter_def)

lemma init_A: "init (Some mdA) W1 = (Inr 1, W2)"
  using identifier_mdA
  by (simp add: init_def register_def W1_def W2_def hashable_id_def idA_val_def new_meter_def)

text \<open>
  Claim C1. A meter whose metadata has an integer \<open>submeter_of\<close> of at least 1 resolves
  its upstream meter through the registry \<open>meters\<close>, under the identifier made of
  \<open>submeter_of\<close>, of the value of \<open>upstream_meter_in_building\<close> when the metadata
  has one that is not None and of the meter's own building otherwise, and of the meter's
  own dataset. The answer is the registered meter, and KeyError when the registry has no
  meter under that identifier. The building and the dataset are values that can be hashed,
  as integers, strings and None are.
\<close>

theorem upstream_meter_resolves:
  assumes sub: "metadata m ''submeter_of'' = Some (VInt n)" and pos: "1 \<le> n"
    and bld: "b = (case metadata m ''upstream_meter_in_building'' of
                     None \<Rightarrow> building (identifier m)
                   | Some v \<Rightarrow> if v = VNone then building (identifier m) else v)"
    and hb: "hashable b" and hd: "hashable (dataset (identifier m))"
  shows "upstream_meter w m =
           (case meters w (ElectricityMeterID (VInt n) b (dataset (identifier m))) of
              None \<Rightarrow> Inl KeyError
            | Some a \<Rightarrow> Inr a)"
  using assms
  by (auto simp: upstream_meter_def md_get_def hashable_id_def Let_def split: option.splits)

text \<open>The scenario of the spec: B is constructed first, then A; the upstream meter of A
  is the object B, at address 0.\<close>

theorem upstream_meter_resolves_witness:
  "init (Some mdB) W0 = (Inr 0, W1) \<and> init (Some mdA) W1 = (Inr 1, W2) \<and>
   heap W2 0 = Some (new_meter mdB) \<and> heap W2 1 = Some (new_meter mdA) \<and>
   upstream_meter W2 (new_meter mdA) = Inr 0"
proof -
  have sub: "metadata (new_meter mdA) ''submeter_of'' = Some (VInt 1)"
    by (simp add: new_meter_def mdA_def)
  have bld: "VInt 1 = (case metadata (new_meter mdA) ''upstream_meter_in_building'' of
                     None \<Rightarrow> building (identifier (new_meter mdA))
                   | Some v \<Rightarrow> if v = VNone then building (identifier (new_meter mdA)) else v)"
  proof -
    have "metadata (new_meter mdA) ''upstream_meter_in_building'' = None"
      by (simp add: new_meter_def mdA_def)
    then show ?thesis by (simp add: identifier_mdA idA_val_def)
  qed
  have "upstream_meter W2 (new_meter mdA) =
           (case meters W2 (ElectricityMeterID (VInt 1) (VInt 1) (dataset (identifier (new_meter mdA)))) of
              None \<Rightarrow> Inl KeyError
            | Some a \<Rightarrow> Inr a)"
    by (rule upstream_meter_resolves [OF sub _ bld]) (simp_all add: identifier_mdA idA_val_def)
  then have "upstream_meter W2 (new_meter mdA) = Inr 0"
    by (simp add: identifier_mdA W2_def idB_val_def idA_val_def)
  then show ?thesis
    by (simp add: init_B init_A) (simp add: W2_def)
qed

text \<open>With no meter registered under the identifier, the lookup raises KeyError.\<close>

lemma upstream_meter_unregistered: "upstream_meter W0 (new_meter mdA) = Inl KeyError"
  by (simp add: upstream_meter_def md_get_def hashable_id_def identifier_def new_meter_def
      mdA_def W0_def)

text \<open>
  Claim C2, as amended. Reading the upstream meter of a meter whose metadata has no
  \<open>submeter_of\<close> raises ValueError with the message of line 126, and reading it when
  \<open>submeter_of\<close> is an integer below 1 raises ValueError with the message of line 128.
  Both exceptions are of the one class ValueError; only their messages tell them apart.
\<close>

theorem upstream_meter_errors:
  "(metadata m ''submeter_of'' = None \<longrightarrow>
      upstream_meter w m = Inl (ValueError msg_no_submeter_of)) \<and>
   (metadata m ''submeter_of'' = Some (VInt n) \<and> n < 1 \<longrightarrow>
      upstream_meter w m = Inl (ValueError msg_submeter_of_range)) \<and>
   class_of (ValueError msg_no_submeter_of) = class_of (ValueError msg_submeter_of_range) \<and>
   msg_no_submeter_of \<noteq> msg_submeter_of_range"
  by (simp add: upstream_meter_def md_get_def msg_no_submeter_of_def msg_submeter_of_range_def)

theorem upstream_meter_errors_witness:
  "upstream_meter W0 (new_meter Map.empty) = Inl (ValueError msg_no_submeter_of) \<and>
   upstream_meter W0 (new_meter [''submeter_of'' \<mapsto> VInt (- 3)]) =
     Inl (ValueError msg_submeter_of_range)"
  using upstream_meter_errors [of "new_meter Map.empty" W0 0]
    upstream_meter_errors [of "new_meter [''submeter_of'' \<mapsto> VInt (- 3)]" W0 "- 3"]
  by (simp add: new_meter_def)

text \<open>The claim as stated fails: the exception for a missing \<open>submeter_of\<close> and the
  exception for \<open>submeter_of = 0\<close> have the same class.\<close>

theorem upstream_meter_error_kinds_counterexample:
  "upstream_meter W0 (new_meter Map.empty) = Inl (ValueError msg_no_submeter_of) \<and>
   upstream_meter W0 (new_meter [''submeter_of'' \<mapsto> VInt 0]) =
     Inl (ValueError msg_submeter_of_range) \<and>
   class_of (ValueError msg_no_submeter_of) = class_of (ValueError msg_submeter_of_range)"
  by (simp add: upstream_meter_def md_get_def new_meter_def)

section \<open>Pipelines\<close>

text \<open>
  Claim C3, as amended. On a meter whose store is unset, \<open>total_energy\<close> and
  \<open>good_sections\<close> raise the RuntimeError of line 313 before a pipeline is constructed
  or run. The nodes are constructed by then: the events so far are the construction of
  ClipNode and EnergyNode, or of LocateGoodSectionsNode.
\<close>

theorem store_unset_guard:
  assumes "store m = None"
  shows "total_energy run m load_kwargs tr =
           (Inl (RuntimeError msg_store_not_set),
            tr @ [NodeCreated ClipNode, NodeCreated EnergyNode]) \<and>
         good_sections run m tr =
           (Inl (RuntimeError msg_store_not_set), tr @ [NodeCreated LocateGoodSectionsNode])"
  using assms by (simp add: total_energy_def good_sections_def run_pipeline_def)

theorem store_unset_guard_witness:
  "store (new_meter Map.empty) = None \<and>
   total_energy run_nothing (new_meter Map.empty) Map.empty [] =
     (Inl (RuntimeError msg_store_not_set), [NodeCreated ClipNode, NodeCreated EnergyNode]) \<and>
   good_sections run_nothing (new_meter Map.empty) [] =
     (Inl (RuntimeError msg_store_not_set), [NodeCreated LocateGoodSectionsNode])"
proof -
  have h: "store (new_meter Map.empty) = None" by (simp add: new_meter_def)
  show ?thesis using h store_unset_guard [OF h, of run_nothing Map.empty "[]"] by simp
qed

text \<open>The claim as stated fails: on a fresh meter, whose store is unset, the two nodes of
  \<open>total_energy\<close> and the node of \<open>good_sections\<close> exist when the guard raises.\<close>

theorem nodes_created_before_guard_counterexample:
  "store (new_meter Map.empty) = None \<and>
   fst (total_energy run_nothing (new_meter Map.empty) Map.empty []) =
     Inl (RuntimeError msg_store_not_set) \<and>
   snd (total_energy run_nothing (new_meter Map.empty) Map.empty []) =
     [NodeCreated ClipNode, NodeCreated EnergyNode] \<and>
   snd (good_sections run_nothing (new_meter Map.empty) []) = [NodeCreated LocateGoodSectionsNode]"
  by (simp add: total_energy_def good_sections_def run_pipeline_def new_meter_def)

text \<open>
  Claim C4 does not hold on the code. For every meter and every mains meter,
  \<open>proportion_of_energy\<close> raises AttributeError at line 293, before either energy is
  computed and before any node is constructed: it answers no quotient and raises no
  ZeroDivisionError, whatever the two energies are.
\<close>

theorem proportion_of_energy_raises:
  "proportion_of_energy run self mains tr = (Inl AttributeError, tr)"
  by (simp add: proportion_of_energy_def good_timeframes_def)

lemma total_energy_by_keys:
  "total_energy run_by_keys (meter_with_keys ks) kw tr =
     (Inr (Energy (of_nat (length ks))),
      tr @ [NodeCreated ClipNode, NodeCreated EnergyNode,
            PipelineCreated [ClipNode, EnergyNode], PipelineRun])"
  by (simp add: total_energy_def run_pipeline_def run_by_keys_def meter_with_keys_def
      results_getitem_def)

text \<open>Two meters with a store whose total energies are 1 and 2, where the claim promises
  the proportion 1 / 2, and a mains meter whose total energy is 0, where it promises
  ZeroDivisionError: both calls raise AttributeError.\<close>

lemma proportion_of_energy_failing_input:
  "fst (total_energy run_by_keys (meter_with_keys [''a'']) Map.empty []) = Inr (Energy 1) \<and>
   fst (total_energy run_by_keys (meter_with_keys [''a'', ''b'']) Map.empty []) = Inr (Energy 2) \<and>
   fst (total_energy run_by_keys (meter_with_keys []) Map.empty []) = Inr (Energy 0) \<and>
   proportion_of_energy run_by_keys (meter_with_keys [''a'']) (meter_with_keys [''a'', ''b'']) [] =
     (Inl AttributeError, []) \<and>
   proportion_of_energy run_by_keys (meter_with_keys [''a'']) (meter_with_keys []) [] =
     (Inl AttributeError, [])"
  by (simp add: total_energy_by_keys proportion_of_energy_def good_timeframes_def)

section \<open>Loading\<close>

text \<open>
  Claim C5. After a load that returns, the keys of the meter are the primary key followed
  by one derived key for each entry of \<open>additional_channels\<close> in the metadata read
  for the primary key (no entry when the metadata has no such key), in the order of the
  entries. A derived key is the printed form of the parsed primary key with its field
  \<open>meter\<close> set to the entry and every other field as it was.
\<close>

theorem load_keys_derived:
  assumes "load env a st key w = (Inr (), w')"
  shows "\<exists>m' md key_obj chans.
           heap w' a = Some m' \<and> st key = Inr md \<and> Key env key = Inr key_obj \<and>
           py_iter (md_get_default md ''additional_channels'' (VList [])) = Inr chans \<and>
           keys m' = key # map (\<lambda>chan. key_str env (key_obj\<lparr>meter := chan\<rparr>)) chans \<and>
           (\<forall>chan. meter (key_obj\<lparr>meter := chan\<rparr>) = chan \<and>
                   key_obj.more (key_obj\<lparr>meter := chan\<rparr>) = key_obj.more key_obj)"
proof -
  from assms obtain m md key_obj chans device_model d aps m' where
    md: "st key = Inr md" and ko: "Key env key = Inr key_obj"
    and ch: "py_iter (md_get_default md ''additional_channels'' (VList [])) = Inr chans"
    and m': "m' = \<lparr>store = Some st,
               keys = key # map (\<lambda>chan. key_str env (key_obj\<lparr>meter := chan\<rparr>)) chans,
               appliances = aps, metadata = md(''device'' \<mapsto> d)\<rparr>"
    and heap': "heap w' = (heap w)(a \<mapsto> m')"
    by (rule load_success)
  have "heap w' a = Some m'" by (simp add: heap')
  moreover have "keys m' = key # map (\<lambda>chan. key_str env (key_obj\<lparr>meter := chan\<rparr>)) chans"
    by (simp add: m')
  ultimately show ?thesis using md ko ch by auto
qed

text \<open>The scenario of the spec: the additional channel 3 on a primary key that addresses
  meter 2.\<close>

theorem load_keys_derived_witness:
  "load ENV 0 ST1 K2 WL0 = (Inr (), WL1) \<and> md2 ''additional_channels'' = Some (VList [VInt 3]) \<and>
   map_option keys (heap WL1 0) = Some [K2, K3]"
proof -
  from load_keys_derived [OF load_example] obtain m' md key_obj chans where
    h: "heap WL1 0 = Some m'" and md: "ST1 K2 = Inr md" and ko: "Key ENV K2 = Inr key_obj"
    and ch: "py_iter (md_get_default md ''additional_channels'' (VList [])) = Inr chans"
    and ks: "keys m' = K2 # map (\<lambda>chan. key_str ENV (key_obj\<lparr>meter := chan\<rparr>)) chans"
    by blast
  have "md = md2" using md by (simp add: ST1_K2)
  then have "chans = [VInt 3]" using ch by (simp add: md_get_default_def md2_lookups)
  moreover have "key_obj = \<lparr>meter = VInt 2, \<dots> = ''/building1/elec/meter''\<rparr>"
    using ko by (simp add: ENV_def Key_ex_K2)
  ultimately have "keys m' = [K2, K3]"
    using ks by (simp add: ENV_def key_str_ex_3)
  then show ?thesis using h by (simp add: load_example md2_lookups)
qed

lemma power_ac_types_map_filter: "power_ac_types ms = List.map_filter power_tag ms"
  by (induction ms rule: power_ac_types.induct) simp_all

text \<open>
  Claim C6. When the device of the meter resolves to a profile whose \<open>measurements\<close>
  entry is a list, \<open>available_ac_types\<close> answers the tags of the power entries of that
  list, one for each power entry and in the order of the list; the other entries are
  skipped, and equal tags are kept.
\<close>

theorem available_ac_types_power_entries:
  assumes "device w m = Inr d" and "py_getitem d ''measurements'' = Inr (VList ms)"
  shows "available_ac_types w m = Inr (List.map_filter power_tag ms)"
  using assms by (simp add: available_ac_types_def power_ac_types_map_filter)

text \<open>A voltage entry is skipped, and the tag that occurs twice is answered twice.\<close>

theorem available_ac_types_power_entries_witness:
  "device WL1 M2 = Inr dev_old \<and>
   available_ac_types WL1 M2 = Inr [''apparent'', ''active'', ''apparent'']"
proof -
  have ms: "py_getitem dev_old ''measurements'' =
      Inr (VList [VMeas (Power ''apparent''), VMeas Voltage, VMeas (Power ''active''),
                  VMeas (Power ''apparent'')])"
    by (simp add: dev_old_def)
  show ?thesis
    using available_ac_types_power_entries [OF device_WL1 ms]
    by (simp add: device_WL1)
qed

text \<open>
  Claim C7. A construction that returns has bound the identifier of the new meter to the
  new object in the registry \<open>meters\<close>, and a load that returns has bound the identifier
  of the loaded meter to the loaded object. The registry is otherwise as before: a binding
  of the same identifier is overwritten, and nothing else is added or removed.
\<close>

theorem registered_at_init_and_load:
  "(init md_arg w0 = (Inr b, w0') \<longrightarrow>
      (\<exists>m. heap w0' b = Some m \<and>
           metadata m = (case md_arg of None \<Rightarrow> Map.empty | Some md \<Rightarrow> md) \<and>
           meters w0' = (meters w0)(identifier m \<mapsto> b))) \<and>
   (load env a st key w = (Inr (), w') \<longrightarrow>
      (\<exists>m. heap w' a = Some m \<and> meters w' (identifier m) = Some a \<and>
           meters w' = (meters w)(identifier m \<mapsto> a) \<and>
           dom (meters w') = insert (identifier m) (dom (meters w))))"
proof (intro conjI impI)
  assume "init md_arg w0 = (Inr b, w0')"
  then show "\<exists>m. heap w0' b = Some m \<and>
           metadata m = (case md_arg of None \<Rightarrow> Map.empty | Some md \<Rightarrow> md) \<and>
           meters w0' = (meters w0)(identifier m \<mapsto> b)"
    by (auto simp: init_def register_def Let_def split: if_splits)
next
  assume "load env a st key w = (Inr (), w')"
  then obtain m md key_obj chans device_model d aps m' where
    heap': "heap w' = (heap w)(a \<mapsto> m')"
    and meters': "meters w' = (meters w)(identifier m' \<mapsto> a)"
    by (rule load_success)
  have "heap w' a = Some m'" by (simp add: heap')
  moreover have "meters w' (identifier m') = Some a" by (simp add: meters')
  moreover have "dom (meters w') = insert (identifier m') (dom (meters w))"
    by (simp add: meters')
  ultimately show "\<exists>m. heap w' a = Some m \<and> meters w' (identifier m) = Some a \<and>
           meters w' = (meters w)(identifier m \<mapsto> a) \<and>
           dom (meters w') = insert (identifier m) (dom (meters w))"
    using meters' by blast
qed

text \<open>The binding made at construction, under the identifier of the empty metadata,
  stays when the load binds the identifier read from the store.\<close>

theorem registered_at_init_and_load_witness:
  "init None W0 = (Inr 0, WL0) \<and> load ENV 0 ST1 K2 WL0 = (Inr (), WL1) \<and>
   meters WL0 id_none = Some 0 \<and> meters WL1 id2 = Some 0 \<and> meters WL1 = (meters WL0)(id2 \<mapsto> 0)"
proof -
  from registered_at_init_and_load [of None W0 0 WL0 ENV 0 ST1 K2 WL0 WL1]
  obtain m where "heap WL1 0 = Some m" and "meters WL1 (identifier m) = Some 0"
    and "meters WL1 = (meters WL0)(identifier m \<mapsto> 0)"
    using load_example by blast
  then have "meters WL1 id2 = Some 0 \<and> meters WL1 = (meters WL0)(id2 \<mapsto> 0)"
    by (simp add: heap_WL1 identifier_M2)
  moreover have "meters WL0 id_none = Some 0" by (simp add: WL0_def)
  ultimately show ?thesis by (simp add: init_None load_example)
qed

text \<open>
  Claim C8. Loading the devices of a store a second time answers as the first time did and
  leaves the world as the first time left it. No model name loses its binding, and when
  the root metadata of the store has a dict under \<open>meter_devices\<close>, its bindings are
  laid over those of the registry.
\<close>

theorem load_meter_devices_idempotent:
  "load_meter_devices st (snd (load_meter_devices st w)) = load_meter_devices st w \<and>
   dom (meter_devices w) \<subseteq> dom (meter_devices (snd (load_meter_devices st w))) \<and>
   (st ''/'' = Inr md \<and> md ''meter_devices'' = Some (VDict kvs) \<longrightarrow>
      load_meter_devices st w = (Inr (), w\<lparr>meter_devices := meter_devices w ++ map_of kvs\<rparr>))"
proof (intro conjI impI)
  show "load_meter_devices st (snd (load_meter_devices st w)) = load_meter_devices st w"
  proof (cases "st ''/''")
    case (Inl e)
    then show ?thesis by (simp add: load_meter_devices_def)
  next
    case (Inr md')
    define v where "v = md_get_default md' ''meter_devices'' (VDict [])"
    obtain r d' where rd: "dict_update (meter_devices w) v = (r, d')"
      by (cases "dict_update (meter_devices w) v")
    have tw: "dict_update d' v = (r, d')"
      using dict_update_twice [of "meter_devices w" v] rd by simp
    show ?thesis
      using Inr rd tw by (simp add: load_meter_devices_def v_def [symmetric])
  qed
next
  show "dom (meter_devices w) \<subseteq> dom (meter_devices (snd (load_meter_devices st w)))"
  proof (cases "st ''/''")
    case (Inl e)
    then show ?thesis by (simp add: load_meter_devices_def)
  next
    case (Inr md')
    define v where "v = md_get_default md' ''meter_devices'' (VDict [])"
    obtain r d' where rd: "dict_update (meter_devices w) v = (r, d')"
      by (cases "dict_update (meter_devices w) v")
    have dm: "dom (meter_devices w) \<subseteq> dom d'"
      using dict_update_dom [of "meter_devices w" v] rd by simp
    show ?thesis
      using Inr rd dm by (simp add: load_meter_devices_def v_def [symmetric])
  qed
next
  assume "st ''/'' = Inr md \<and> md ''meter_devices'' = Some (VDict kvs)"
  then show "load_meter_devices st w =
      (Inr (), w\<lparr>meter_devices := meter_devices w ++ map_of kvs\<rparr>)"
    by (simp add: load_meter_devices_def md_get_default_def)
qed

text \<open>The devices of \<open>ST2\<close> rebind the model name of the registry of \<open>WL1\<close>; loading
  them again changes nothing.\<close>

theorem load_meter_devices_idempotent_witness:
  "load_meter_devices ST2 WL1 = (Inr (), WL2) \<and> load_meter_devices ST2 WL2 = (Inr (), WL2) \<and>
   meter_devices WL1 (VStr ''EnviR'') = Some dev_old \<and>
   meter_devices WL2 (VStr ''EnviR'') = Some dev_new"
proof -
  have md: "[''meter_devices'' \<mapsto> VDict [(VStr ''EnviR'', dev_new)]] ''meter_devices'' =
      Some (VDict [(VStr ''EnviR'', dev_new)])"
    by simp
  note idem = load_meter_devices_idempotent [of ST2 WL1
      "[''meter_devices'' \<mapsto> VDict [(VStr ''EnviR'', dev_new)]]" "[(VStr ''EnviR'', dev_new)]"]
  have again: "load_meter_devices ST2 (snd (load_meter_devices ST2 WL1)) =
      load_meter_devices ST2 WL1"
    using idem by (rule conjunct1)
  have first: "load_meter_devices ST2 WL1 =
      (Inr (), WL1\<lparr>meter_devices := meter_devices WL1 ++ map_of [(VStr ''EnviR'', dev_new)]\<rparr>)"
    by (rule idem [THEN conjunct2, THEN conjunct2, THEN mp, OF conjI [OF ST2_root md]])
  have w2: "WL1\<lparr>meter_devices := meter_devices WL1 ++ map_of [(VStr ''EnviR'', dev_new)]\<rparr> = WL2"
    by (simp add: WL1_def WL2_def)
  have one: "load_meter_devices ST2 WL1 = (Inr (), WL2)"
    by (rule first [unfolded w2])
  have two: "load_meter_devices ST2 WL2 = (Inr (), WL2)"
    using again by (simp add: one)
  show ?thesis
    using one two by (simp add: WL1_def WL2_def)
qed

text \<open>
  Claim C9. After a load that returns, the metadata of the meter holds under \<open>device\<close>
  the profile that the registry bound to the device model of the meter when the load
  ended. A later load of the devices of any store leaves the meter object, and with it
  that entry, as it was, whereas the property \<open>device\<close> answers what the registry binds
  to the device model then.
\<close>

theorem cached_device_is_snapshot:
  assumes "load env a st key w = (Inr (), w1)" and "load_meter_devices st2 w1 = (r, w2)"
  shows "\<exists>m device_model d.
           heap w1 a = Some m \<and> metadata m ''device_model'' = Some device_model \<and>
           meter_devices w1 device_model = Some d \<and> metadata m ''device'' = Some d \<and>
           heap w2 a = Some m \<and>
           device w2 m = (case meter_devices w2 device_model of
                            None \<Rightarrow> Inl KeyError | Some d2 \<Rightarrow> Inr d2)"
proof -
  from assms(1) obtain m md key_obj chans device_model d aps m' where
    dm: "md ''device_model'' = Some device_model" and hd: "hashable device_model"
    and dd: "meter_devices w1 device_model = Some d"
    and m': "m' = \<lparr>store = Some st,
               keys = key # map (\<lambda>chan. key_str env (key_obj\<lparr>meter := chan\<rparr>)) chans,
               appliances = aps, metadata = md(''device'' \<mapsto> d)\<rparr>"
    and heap': "heap w1 = (heap w)(a \<mapsto> m')"
    by (rule load_success)
  have h1: "heap w1 a = Some m'" by (simp add: heap')
  have dm': "metadata m' ''device_model'' = Some device_model" by (simp add: m' dm)
  have dv: "metadata m' ''device'' = Some d" by (simp add: m')
  have h2: "heap w2 a = Some m'"
    using load_meter_devices_frame [OF assms(2)] h1 by simp
  have live: "device w2 m' = (case meter_devices w2 device_model of
                            None \<Rightarrow> Inl KeyError | Some d2 \<Rightarrow> Inr d2)"
    by (simp add: device_def dm' lookup_device_def hd)
  show ?thesis using h1 dm' dd dv h2 live by blast
qed

text \<open>The devices of \<open>ST2\<close> rebind the model name: the cached profile stays the old
  one and the property answers the new one.\<close>

theorem cached_device_is_snapshot_witness:
  "load ENV 0 ST1 K2 WL0 = (Inr (), WL1) \<and> load_meter_devices ST2 WL1 = (Inr (), WL2) \<and>
   map_option (\<lambda>m. metadata m ''device'') (heap WL1 0) = Some (Some dev_old) \<and>
   map_option (\<lambda>m. metadata m ''device'') (heap WL2 0) = Some (Some dev_old) \<and>
   map_option (device WL2) (heap WL2 0) = Some (Inr dev_new) \<and> dev_old \<noteq> dev_new"
proof -
  from cached_device_is_snapshot [OF load_example devices_example]
  obtain m device_model d where h1: "heap WL1 0 = Some m"
    and dm: "metadata m ''device_model'' = Some device_model"
    and dv: "metadata m ''device'' = Some d" and h2: "heap WL2 0 = Some m"
    and live: "device WL2 m = (case meter_devices WL2 device_model of
                            None \<Rightarrow> Inl KeyError | Some d2 \<Rightarrow> Inr d2)"
    by blast
  have m: "m = M2" using h1 by (simp add: heap_WL1)
  have "device_model = VStr ''EnviR''" using dm by (simp add: m M2_def md2_lookups)
  then have "device WL2 m = Inr dev_new" using live by (simp add: WL2_def)
  moreover have "metadata m ''device'' = Some dev_old" by (simp add: m M2_def)
  moreover have "dev_old \<noteq> dev_new" by (simp add: dev_old_def dev_new_def)
  ultimately show ?thesis using h1 h2 by (simp add: load_example devices_example)
qed

text \<open>
  Claim C10. When the store has metadata for the key and the key parses to an object whose
  field \<open>meter\<close> is None, the load raises AssertionError. The world then differs from the
  one before the load in the meter object alone: its store is the new store, its metadata
  the metadata read for the key and its keys the key alone, while its appliances, the
  registry of meters and the registry of devices are as before.
\<close>

theorem load_not_atomic:
  assumes "heap w a = Some m" and "st key = Inr md" and "Key env key = Inr key_obj"
    and "meter key_obj = VNone"
  shows "load env a st key w =
           (Inl AssertionError,
            w\<lparr>heap := (heap w)(a \<mapsto> m\<lparr>store := Some st, metadata := md, keys := [key]\<rparr>)\<rparr>)"
  using assms
  by (simp add: load_def load_metadata_step_def load_keys_def and_then_def Let_def)

text \<open>The key \<open>K0\<close> addresses no meter: the fresh meter of \<open>WL0\<close> takes the store, the
  metadata and the key, and the registry still holds it under the identifier of the empty
  metadata only.\<close>

theorem load_not_atomic_witness:
  "load ENV 0 ST1 K0 WL0 =
     (Inl AssertionError,
      WL0\<lparr>heap := (heap WL0)(0 \<mapsto> \<lparr>store = Some ST1, keys = [K0], appliances = [], metadata = md0\<rparr>)\<rparr>)
   \<and> meters WL0 = [id_none \<mapsto> 0]"
proof -
  have h: "heap WL0 0 = Some (new_meter Map.empty)" by (simp add: WL0_def)
  have k: "Key ENV K0 = Inr \<lparr>meter = VNone, \<dots> = K0\<rparr>" by (simp add: ENV_def Key_ex_K0)
  show ?thesis
    using load_not_atomic [of WL0 0 "new_meter Map.empty" ST1 K0 md0 ENV
        "\<lparr>meter = VNone, \<dots> = K0\<rparr>", OF h ST1_K0 k]
    by (simp add: new_meter_def) (simp add: WL0_def)
qed

end
